theory Spec2Isabelle
  imports Main
begin

section \<open>A shallow embedding of smallsh.c\<close>

text \<open>
  The shell of \<^verbatim>\<open>src/smallsh.c\<close> is a single C file. Its functions are embedded
  one by one, under their own names. What a function does to the outside world
  (printing, system calls) is returned as a list of events in program order; what the
  outside world answers (the line \<^verbatim>\<open>fgets\<close> delivers, what \<^verbatim>\<open>waitpid\<close>,
  \<^verbatim>\<open>open\<close>, \<^verbatim>\<open>dup2\<close>, \<^verbatim>\<open>execvp\<close>, \<^verbatim>\<open>chdir\<close> and \<^verbatim>\<open>fork\<close> return) is a parameter.
  A step on which C gives the program no defined behaviour (a read through a null
  pointer, an index past the end of the argument array, a format directive without its
  argument) ends the run with a \<open>fault\<close>.

  C strings are modelled as character lists of any length: the size of the buffer a
  string is written to (\<^verbatim>\<open>strlen(token) + 1\<close> bytes for every argument,
  \<^verbatim>\<open>MAX_INPUT\<close> bytes for the input line) is not part of the model.
\<close>

subsection \<open>Constants and the state\<close>

definition MAX_INPUT :: nat where
  "MAX_INPUT = 2048"

definition MAX_ARGS :: nat where
  "MAX_ARGS = 512"

text \<open>Values of the C library on the Linux/glibc target the file is compiled for.\<close>

definition EXIT_FAILURE :: int where
  "EXIT_FAILURE = 1"

definition WNOHANG :: int where
  "WNOHANG = 1"

definition SIGKILL :: int where
  "SIGKILL = 9"

text \<open>
  \<^verbatim>\<open>struct shell\<close>. A \<^verbatim>\<open>char*\<close> is \<open>None\<close> when it is the null pointer.
  \<^verbatim>\<open>bgProcesses\<close> has 50 slots; \<^verbatim>\<open>cmdLineArgs\<close> is a store from index to pointer, of
  which the indices below \<open>MAX_ARGS\<close> belong to the array.
\<close>

record shell =
  pid :: int
  exitShell :: int
  exitStatus :: int
  childPID :: int
  bgProcesses :: "int list"
  bgFlag :: int
  cmdLineArgs :: "nat \<Rightarrow> string option"
  inputFile :: "string option"
  outputFile :: "string option"

datatype fault =
    NullPointer
  | OutOfBounds
  | FormatUndefined
  | EndOfInput

datatype event =
    Stdout string
  | Perror string
  | Waitpid int int
  | Kill int int
  | Reap

text \<open>
  \<open>Stdout s\<close>: the text \<open>s\<close> goes to standard output (\<^verbatim>\<open>printf\<close>, \<^verbatim>\<open>write\<close>).
  \<open>Perror s\<close>: \<^verbatim>\<open>perror(s)\<close>. \<open>Waitpid p opts\<close>, \<open>Kill p sig\<close>: the system call
  with these arguments. \<open>Reap\<close>: \<^verbatim>\<open>checkBackgroundProcessTermination\<close> is
  entered.
\<close>

text \<open>\<^verbatim>\<open>shellSetUp\<close>: the struct is zeroed by \<^verbatim>\<open>calloc\<close>; \<open>getpid\<close> is the result of
  \<^verbatim>\<open>getpid()\<close>.\<close>

definition shellSetUp :: "int \<Rightarrow> shell" where
  "shellSetUp getpid =
     \<lparr> pid = getpid, exitShell = 0, exitStatus = 0, childPID = - 5,
       bgProcesses = replicate 50 0, bgFlag = 0, cmdLineArgs = (\<lambda>_. None),
       inputFile = None, outputFile = None \<rparr>"

subsection \<open>Formatted output\<close>

definition newline :: char where
  "newline = CHR 0x0A"

fun dec_nat :: "nat \<Rightarrow> string" where
  "dec_nat n =
     (if n < 10 then [''0123456789'' ! n]
      else dec_nat (n div 10) @ [''0123456789'' ! (n mod 10)])"

declare dec_nat.simps [simp del]

text \<open>The conversion \<^verbatim>\<open>%d\<close> of an \<^verbatim>\<open>int\<close>.\<close>

definition dec :: "int \<Rightarrow> string" where
  "dec i = (if i < 0 then CHR ''-'' # dec_nat (nat (- i)) else dec_nat (nat i))"

text \<open>
  \<^verbatim>\<open>sprintf(dst, format, args...)\<close> with \<^verbatim>\<open>int\<close> arguments: the text written to
  \<^verbatim>\<open>dst\<close>. An ordinary character is copied, \<^verbatim>\<open>%%\<close> writes one \<^verbatim>\<open>%\<close>, \<^verbatim>\<open>%d\<close>
  writes the next argument in decimal; arguments left over are ignored. A \<^verbatim>\<open>%d\<close>
  with no argument left and every other directive are a fault.
\<close>

fun sprintf :: "string \<Rightarrow> int list \<Rightarrow> fault + string" where
  "sprintf [] args = Inr []"
| "sprintf (c # cs) args =
     (if c \<noteq> CHR ''%'' then map_sum id ((#) c) (sprintf cs args)
      else (case cs of
              [] \<Rightarrow> Inl FormatUndefined
            | d # ds \<Rightarrow>
                if d = CHR ''%'' then map_sum id ((#) CHR ''%'') (sprintf ds args)
                else if d = CHR ''d'' then
                  (case args of
                     [] \<Rightarrow> Inl FormatUndefined
                   | a # rest \<Rightarrow> map_sum id ((@) (dec a)) (sprintf ds rest))
                else Inl FormatUndefined))"

text \<open>The conversion \<^verbatim>\<open>%s\<close> of \<^verbatim>\<open>printf\<close>; glibc prints a null pointer as
  \<^verbatim>\<open>(null)\<close>.\<close>

definition str_arg :: "string option \<Rightarrow> string" where
  "str_arg p = (case p of None \<Rightarrow> ''(null)'' | Some s \<Rightarrow> s)"

subsection \<open>The mode flag and its signal handler\<close>

text \<open>\<^verbatim>\<open>int fgFlag = 0;\<close>\<close>

definition fgFlag_init :: int where
  "fgFlag_init = 0"

definition enterMessage :: string where
  "enterMessage =
     newline # ''Entering foreground-only mode (& is now ignored)'' @ [newline]"

definition exitMessage :: string where
  "exitMessage = newline # ''Exiting foreground-only mode'' @ [newline]"

text \<open>\<^verbatim>\<open>handle_SIGTSTP\<close>: from the flag before the delivery to the flag after it and
  what is written.\<close>

definition handle_SIGTSTP :: "int \<Rightarrow> int \<Rightarrow> int \<times> event list" where
  "handle_SIGTSTP signo fgFlag =
     (if fgFlag = 0 then (1, [Stdout enterMessage]) else (0, [Stdout exitMessage]))"

text \<open>The flag and the output after the signals of a list are delivered in turn.\<close>

fun deliver :: "int list \<Rightarrow> int \<Rightarrow> int \<times> event list" where
  "deliver [] fgFlag = (fgFlag, [])"
| "deliver (signo # signals) fgFlag =
     (let (f1, out1) = handle_SIGTSTP signo fgFlag;
          (f2, out2) = deliver signals f1
      in (f2, out1 @ out2))"

subsection \<open>Expansion of the process identifier\<close>

text \<open>
  \<^verbatim>\<open>pidReplacement\<close>: the loop over \<open>x\<close>, with \<^verbatim>\<open>strlen(command)\<close> read again at
  every turn. \<open>getpid\<close> is the result of \<^verbatim>\<open>getpid()\<close>.
\<close>

function pidReplacement_loop :: "int \<Rightarrow> string \<Rightarrow> nat \<Rightarrow> fault + string" where
  "pidReplacement_loop getpid command x =
     (if x < length command then
        (if command ! x = CHR ''$'' \<and> x + 1 < length command \<and> command ! (x + 1) = CHR ''$''
         then
           (case sprintf (command[x := CHR ''%'', x + 1 := CHR ''d'']) [getpid] of
              Inl e \<Rightarrow> Inl e
            | Inr command' \<Rightarrow> pidReplacement_loop getpid command' (x + 1))
         else pidReplacement_loop getpid command (x + 1))
      else Inr command)"
  by pat_completeness auto
termination
proof -
  have dollars: "count_list out CHR ''$'' \<le> count_list fmt CHR ''$''"
    if "sprintf fmt args = Inr out" for fmt args out
    using that
  proof (induction fmt args arbitrary: out rule: sprintf.induct)
    case (1 args)
    then show ?case by simp
  next
    case (2 c cs args)
    show ?case
    proof (cases "c = CHR ''%''")
      case False
      with 2 show ?thesis
        by (cases "sprintf cs args") auto
    next
      case True
      note pc = True
      show ?thesis
      proof (cases cs)
        case Nil
        with 2 pc show ?thesis by simp
      next
        case (Cons d ds)
        note cs = Cons
        show ?thesis
        proof (cases "d = CHR ''%''")
          case True
          with 2 pc cs show ?thesis
            by (cases "sprintf ds args") auto
        next
          case False
          note nd = False
          show ?thesis
          proof (cases "d = CHR ''d''")
            case False
            with 2 pc cs nd show ?thesis by simp
          next
            case True
            note dd = True
            show ?thesis
            proof (cases args)
              case Nil
              with 2 pc cs nd dd show ?thesis by simp
            next
              case (Cons a rest)
              have nodollar: "count_list (dec_nat n) CHR ''$'' = 0" for n
              proof (induction n rule: dec_nat.induct)
                case (1 n)
                have digit: "count_list [''0123456789'' ! k] CHR ''$'' = 0" if "k < 10" for k
                proof -
                  from that have "k \<in> {0, 1, 2, 3, 4, 5, 6, 7, 8, 9}" by auto
                  then show ?thesis by auto
                qed
                show ?case
                proof (cases "n < 10")
                  case True
                  then show ?thesis
                    using digit [of n] by (subst dec_nat.simps) (simp del: dec_nat.simps)
                next
                  case False
                  then show ?thesis
                    using 1 digit [of "n mod 10"]
                    by (subst dec_nat.simps) (simp del: dec_nat.simps)
                qed
              qed
              have "count_list (dec a) CHR ''$'' = 0"
                by (simp add: dec_def nodollar)
              with 2 pc cs nd dd Cons show ?thesis
                by (cases "sprintf ds rest") auto
            qed
          qed
        qed
      qed
    qed
  qed
  have replaced: "count_list (command[x := CHR ''%'', x + 1 := CHR ''d'']) CHR ''$''
      < count_list command CHR ''$''"
    if "x < length command" "command ! x = CHR ''$''" for command x
    using that
  proof (induction command arbitrary: x)
    case Nil
    then show ?case by simp
  next
    case (Cons c cs)
    have upd: "count_list (ys[i := CHR ''d'']) CHR ''$'' \<le> count_list ys CHR ''$''" for ys i
      by (induction ys arbitrary: i) (auto split: nat.splits)
    show ?case
    proof (cases x)
      case 0
      with Cons.prems have "c = CHR ''$''" by simp
      with 0 show ?thesis
        using upd [of cs 0] by (simp add: le_imp_less_Suc)
    next
      case (Suc y)
      with Cons.prems have "y < length cs" "cs ! y = CHR ''$''" by simp_all
      from Cons.IH [OF this] Suc show ?thesis by simp
    qed
  qed
  show ?thesis
  proof (relation "measures [\<lambda>(p, command, x). count_list command CHR ''$'',
                             \<lambda>(p, command, x). length command - x]")
    show "wf (measures [\<lambda>(p, command, x). count_list command CHR ''$'',
                        \<lambda>(p, command, x). length command - x])"
      by simp
  next
    fix getpid :: int and command :: string and x :: nat and command' :: string
    assume "x < length command"
      and m: "command ! x = CHR ''$'' \<and> x + 1 < length command \<and> command ! (x + 1) = CHR ''$''"
      and s: "sprintf (command[x := CHR ''%'', x + 1 := CHR ''d'']) [getpid] = Inr command'"
    from dollars [OF s] replaced [of x command] m \<open>x < length command\<close>
    have "count_list command' CHR ''$'' < count_list command CHR ''$''"
      by simp
    then show "((getpid, command', x + 1), (getpid, command, x))
        \<in> measures [\<lambda>(p, command, x). count_list command CHR ''$'',
                     \<lambda>(p, command, x). length command - x]"
      by simp
  next
    fix getpid :: int and command :: string and x :: nat
    assume "x < length command"
    then show "((getpid, command, x + 1), (getpid, command, x))
        \<in> measures [\<lambda>(p, command, x). count_list command CHR ''$'',
                     \<lambda>(p, command, x). length command - x]"
      by auto
  qed
qed

definition pidReplacement :: "int \<Rightarrow> string \<Rightarrow> fault + string" where
  "pidReplacement getpid command = pidReplacement_loop getpid command 0"

declare pidReplacement_loop.simps [simp del]

subsection \<open>Wait statuses\<close>

text \<open>
  The macros of \<^verbatim>\<open><sys/wait.h>\<close> as glibc defines them, on the status word that
  \<^verbatim>\<open>waitpid\<close> writes: \<^verbatim>\<open>WTERMSIG(s)\<close> is \<^verbatim>\<open>s & 0x7f\<close>, \<^verbatim>\<open>WEXITSTATUS(s)\<close> is
  \<^verbatim>\<open>(s & 0xff00) >> 8\<close>, \<^verbatim>\<open>WIFEXITED(s)\<close> is \<^verbatim>\<open>WTERMSIG(s) == 0\<close>, and
  \<^verbatim>\<open>WIFSIGNALED(s)\<close> is \<^verbatim>\<open>((signed char) ((s & 0x7f) + 1) >> 1) > 0\<close>, which holds
  when the low seven bits are neither 0 nor 127.
\<close>

definition WTERMSIG :: "int \<Rightarrow> int" where
  "WTERMSIG st = st mod 128"

definition WEXITSTATUS :: "int \<Rightarrow> int" where
  "WEXITSTATUS st = (st div 256) mod 256"

definition WIFEXITED :: "int \<Rightarrow> bool" where
  "WIFEXITED st = (WTERMSIG st = 0)"

definition WIFSIGNALED :: "int \<Rightarrow> bool" where
  "WIFSIGNALED st = (0 < st mod 128 \<and> st mod 128 < 127)"

text \<open>
  What one call of \<^verbatim>\<open>waitpid\<close> finds: the child still runs (the call returns 0, which
  only happens under \<^verbatim>\<open>WNOHANG\<close>), the child has ended and its status is written, or
  the call fails (it returns \<^verbatim>\<open>-1\<close> and writes nothing).
\<close>

datatype wait_ret = Running | Reaped int | Failed

text \<open>The value \<^verbatim>\<open>waitpid(p, &st, _)\<close> returns, and \<open>st\<close> after the call.\<close>

definition waitpid :: "wait_ret \<Rightarrow> int \<Rightarrow> int \<Rightarrow> int \<times> int" where
  "waitpid found p st =
     (case found of Running \<Rightarrow> (0, st) | Reaped st' \<Rightarrow> (p, st') | Failed \<Rightarrow> (- 1, st))"

subsection \<open>The table of background processes\<close>

definition done_exit :: "int \<Rightarrow> int \<Rightarrow> string" where
  "done_exit p st =
     ''Background pid '' @ dec p @ '' is done: Exit value '' @ dec (WEXITSTATUS st) @ [newline]"

definition done_signal :: "int \<Rightarrow> int \<Rightarrow> string" where
  "done_signal p st =
     ''Background pid '' @ dec p @ '' is done: Terminated by signal '' @ dec (WTERMSIG st)
       @ [newline]"

text \<open>The line printed for the process \<open>p\<close> that ended with the status \<open>st\<close>.\<close>

definition report :: "int \<Rightarrow> int \<Rightarrow> event" where
  "report p st = Stdout (if WIFEXITED st then done_exit p st else done_signal p st)"

text \<open>
  The loop of \<^verbatim>\<open>checkBackgroundProcessTermination\<close> from index \<open>x\<close> on. \<open>w p\<close> is what
  \<^verbatim>\<open>waitpid\<close> finds for process \<open>p\<close> when the loop asks; \<open>childStatus\<close> is the local
  variable of that name, which the source does not initialise.
\<close>

function reap_loop ::
  "(int \<Rightarrow> wait_ret) \<Rightarrow> nat \<Rightarrow> int \<Rightarrow> int list \<Rightarrow> int list \<times> event list"
where
  "reap_loop w x childStatus bg =
     (if x < 50 then
        (if bg ! x \<noteq> 0 then
           (let (r, st) = waitpid (w (bg ! x)) (bg ! x) childStatus in
            if r \<noteq> 0 then
              (let (bg', ev) = reap_loop w (x + 1) st (bg[x := 0]) in
               (bg', Waitpid (bg ! x) WNOHANG # report (bg ! x) st # ev))
            else
              (let (bg', ev) = reap_loop w (x + 1) st bg in
               (bg', Waitpid (bg ! x) WNOHANG # ev)))
         else reap_loop w (x + 1) childStatus bg)
      else (bg, []))"
  by pat_completeness auto
termination
  by (relation "measure (\<lambda>(w, x, childStatus, bg). 50 - x)") auto

declare reap_loop.simps [simp del]

definition checkBackgroundProcessTermination ::
  "(int \<Rightarrow> wait_ret) \<Rightarrow> int \<Rightarrow> shell \<Rightarrow> shell \<times> event list"
where
  "checkBackgroundProcessTermination w childStatus s =
     (let (bg', ev) = reap_loop w 0 childStatus (bgProcesses s)
      in (s\<lparr>bgProcesses := bg'\<rparr>, Reap # ev))"

text \<open>The loop of \<^verbatim>\<open>createNewProcess\<close> that looks for an empty index, from \<open>x\<close> on;
  \<open>child\<close> is \<^verbatim>\<open>shell->childPID\<close>.\<close>

function register_loop :: "nat \<Rightarrow> int \<Rightarrow> int list \<Rightarrow> int list" where
  "register_loop x child bg =
     (if x < 50 then
        (if bg ! x = 0 then bg[x := child] else register_loop (x + 1) child bg)
      else bg)"
  by pat_completeness auto
termination
  by (relation "measure (\<lambda>(x, child, bg). 50 - x)") auto

declare register_loop.simps [simp del]

text \<open>\<^verbatim>\<open>exitSmallShell\<close>: the signals sent from index \<open>x\<close> on.\<close>

function kill_loop :: "nat \<Rightarrow> int list \<Rightarrow> event list" where
  "kill_loop x bg =
     (if x < 50 then
        (if bg ! x \<noteq> 0 then Kill (bg ! x) SIGKILL # kill_loop (x + 1) bg
         else kill_loop (x + 1) bg)
      else [])"
  by pat_completeness auto
termination
  by (relation "measure (\<lambda>(x, bg). 50 - x)") auto

declare kill_loop.simps [simp del]

definition exitSmallShell :: "shell \<Rightarrow> shell \<times> event list" where
  "exitSmallShell s = (s\<lparr>exitShell := 1\<rparr>, kill_loop 0 (bgProcesses s))"

subsection \<open>The built-in commands status and cd\<close>

definition printShellStatus :: "shell \<Rightarrow> shell \<times> event list" where
  "printShellStatus s =
     (s,
      if exitStatus s = 0 then [Stdout (''exit value '' @ dec 0 @ [newline])]
      else if WIFEXITED (exitStatus s) then
        [Stdout (''exit value '' @ dec (WEXITSTATUS (exitStatus s)) @ [newline])]
      else [Stdout (''terminated by signal '' @ dec (WTERMSIG (exitStatus s)) @ [newline])])"

text \<open>
  The part of the operating system the shell and its children act on: the working
  directory of the shell process, the environment variable \<^verbatim>\<open>HOME\<close>, and what the
  system calls answer. \<open>enter cwd path\<close> is the directory \<open>path\<close> names for a process
  in \<open>cwd\<close> when that directory can be entered. \<^verbatim>\<open>chdir\<close> is the system call as POSIX
  describes it: on failure it returns \<^verbatim>\<open>-1\<close> and the working directory stays; a null
  pointer is a bad address.
\<close>

record kernel =
  cwd :: string
  HOME :: "string option"
  enter :: "string \<Rightarrow> string \<Rightarrow> string option"
  open_rd :: "string \<Rightarrow> bool"
  open_wr :: "string \<Rightarrow> bool"
  dup2_ok :: "nat \<Rightarrow> bool"
  execvp_ok :: "string option \<Rightarrow> bool"

definition chdir :: "string option \<Rightarrow> kernel \<Rightarrow> int \<times> kernel" where
  "chdir path k =
     (case path of
        None \<Rightarrow> (- 1, k)
      | Some p \<Rightarrow>
          (case enter k (cwd k) p of
             None \<Rightarrow> (- 1, k)
           | Some d \<Rightarrow> (0, k\<lparr>cwd := d\<rparr>)))"

text \<open>\<^verbatim>\<open>changeShellDirectory\<close>: the value \<^verbatim>\<open>chdir\<close> returns is dropped and nothing is
  printed.\<close>

definition changeShellDirectory :: "shell \<Rightarrow> kernel \<Rightarrow> shell \<times> kernel \<times> event list" where
  "changeShellDirectory s k =
     (if cmdLineArgs s 1 \<noteq> None then
        (let (r, k') = chdir (cmdLineArgs s 1) k in (s, k', []))
      else
        (let (r, k') = chdir (HOME k) k in (s, k', [])))"

subsection \<open>Reading and splitting the command line\<close>

text \<open>
  One call of \<^verbatim>\<open>strtok\<close>/\<^verbatim>\<open>strtok_r\<close> with a single delimiter, on the text the
  call starts from: delimiters in front are skipped; if nothing is left the call
  returns the null pointer (\<open>None\<close>); otherwise it returns the token up to the next
  delimiter and the text after that delimiter, where the next call starts.
\<close>

definition strtok_r :: "char \<Rightarrow> string \<Rightarrow> (string \<times> string) option" where
  "strtok_r delim str =
     (let start = dropWhile (\<lambda>c. c = delim) str in
      if start = [] then None
      else Some (takeWhile (\<lambda>c. c \<noteq> delim) start,
                 drop 1 (dropWhile (\<lambda>c. c \<noteq> delim) start)))"

text \<open>
  \<^verbatim>\<open>strtok(userInput, "\n")\<close>: the buffer afterwards, read as a C string from its
  first byte. The call ends the buffer at the first newline that follows a character
  other than a newline.
\<close>

definition strip_newline :: "string \<Rightarrow> string" where
  "strip_newline userInput =
     (case strtok_r newline userInput of
        None \<Rightarrow> userInput
      | Some (token, saveptr) \<Rightarrow> takeWhile (\<lambda>c. c = newline) userInput @ token)"

text \<open>
  The \<^verbatim>\<open>while\<close> loop over the tokens after the first: each is copied to the next
  index and expanded. The array has \<open>MAX_ARGS\<close> entries and the source does not count
  them, so a store at index \<open>MAX_ARGS\<close> is a fault.
\<close>

function token_loop ::
  "int \<Rightarrow> string \<Rightarrow> nat \<Rightarrow> (nat \<Rightarrow> string option)
     \<Rightarrow> fault + nat \<times> (nat \<Rightarrow> string option)"
where
  "token_loop getpid saveptr cmdNumber args =
     (case strtok_r CHR '' '' saveptr of
        None \<Rightarrow> Inr (cmdNumber, args)
      | Some (token, saveptr') \<Rightarrow>
          if MAX_ARGS \<le> cmdNumber then Inl OutOfBounds
          else
            (case pidReplacement getpid token of
               Inl e \<Rightarrow> Inl e
             | Inr expanded \<Rightarrow>
                 token_loop getpid saveptr' (cmdNumber + 1) (args(cmdNumber := Some expanded))))"
  by pat_completeness auto
termination
proof -
  have shorter: "length saveptr < length str"
    if "strtok_r delim str = Some (token, saveptr)" for delim str token saveptr
  proof -
    define start where "start = dropWhile (\<lambda>c. c = delim) str"
    from that have ne: "start \<noteq> []"
      and rest: "saveptr = drop 1 (dropWhile (\<lambda>c. c \<noteq> delim) start)"
      unfolding strtok_r_def start_def Let_def by (simp_all split: if_splits)
    from ne obtain a as where start: "start = a # as"
      by (cases start) auto
    have "a \<noteq> delim"
      using hd_dropWhile [of "\<lambda>c. c = delim" str] ne start unfolding start_def by auto
    then have "dropWhile (\<lambda>c. c \<noteq> delim) start = dropWhile (\<lambda>c. c \<noteq> delim) as"
      by (simp add: start)
    then have "length saveptr \<le> length as"
      unfolding rest using length_dropWhile_le [of "\<lambda>c. c \<noteq> delim" as] by simp
    also have "length as < length start"
      by (simp add: start)
    also have "length start \<le> length str"
      unfolding start_def by (rule length_dropWhile_le)
    finally show ?thesis .
  qed
  show ?thesis
    by (relation "measure (\<lambda>(getpid, saveptr, cmdNumber, args). length saveptr)")
       (auto dest: shorter)
qed

declare token_loop.simps [simp del]

text \<open>A read of \<^verbatim>\<open>shell->cmdLineArgs[i]\<close>.\<close>

definition arg_at :: "(nat \<Rightarrow> string option) \<Rightarrow> nat \<Rightarrow> fault + string option" where
  "arg_at args i = (if i < MAX_ARGS then Inr (args i) else Inl OutOfBounds)"

text \<open>
  The \<^verbatim>\<open>for\<close> loop that looks for \<^verbatim>\<open><\<close>, \<^verbatim>\<open>>\<close> and \<^verbatim>\<open>&\<close>, from index \<open>x\<close> on.
  \<^verbatim>\<open>strcmp\<close> and \<^verbatim>\<open>strlen\<close> of a null pointer are a fault.
\<close>

function io_loop :: "nat \<Rightarrow> nat \<Rightarrow> nat \<Rightarrow> shell \<Rightarrow> fault + nat \<times> shell" where
  "io_loop x cmdNumber IOstart s =
     (if x < cmdNumber then
        (case cmdLineArgs s x of
           None \<Rightarrow> Inl NullPointer
         | Some arg \<Rightarrow>
             if arg = ''<'' then
               (case arg_at (cmdLineArgs s) (x + 1) of
                  Inl e \<Rightarrow> Inl e
                | Inr None \<Rightarrow> Inl NullPointer
                | Inr (Some file) \<Rightarrow>
                    io_loop (x + 1) cmdNumber (if IOstart = 0 \<or> IOstart > x then x else IOstart)
                      (s\<lparr>inputFile := Some file\<rparr>))
             else if arg = ''>'' then
               (case arg_at (cmdLineArgs s) (x + 1) of
                  Inl e \<Rightarrow> Inl e
                | Inr None \<Rightarrow> Inl NullPointer
                | Inr (Some file) \<Rightarrow>
                    io_loop (x + 1) cmdNumber (if IOstart = 0 \<or> IOstart > x then x else IOstart)
                      (s\<lparr>outputFile := Some file\<rparr>))
             else if arg = ''&'' then
               (case arg_at (cmdLineArgs s) (x + 1) of
                  Inl e \<Rightarrow> Inl e
                | Inr None \<Rightarrow>
                    io_loop (x + 1) cmdNumber IOstart
                      (s\<lparr>bgFlag := 1, cmdLineArgs := (cmdLineArgs s)(x := None)\<rparr>)
                | Inr (Some following) \<Rightarrow> io_loop (x + 1) cmdNumber IOstart s)
             else io_loop (x + 1) cmdNumber IOstart s)
      else Inr (IOstart, s))"
  by pat_completeness auto
termination
  by (relation "measure (\<lambda>(x, cmdNumber, IOstart, s). cmdNumber - x)") auto

declare io_loop.simps [simp del]

text \<open>The last loop: every entry from \<open>IOstart\<close> to the end of the array is reset.\<close>

definition clear_from :: "nat \<Rightarrow> (nat \<Rightarrow> string option) \<Rightarrow> (nat \<Rightarrow> string option)" where
  "clear_from IOstart args = (\<lambda>x. if IOstart \<le> x \<and> x < MAX_ARGS then None else args x)"

text \<open>
  The part of \<^verbatim>\<open>getCommandLineArguments\<close> after the prompt loop, on the line
  \<open>userInput\<close> that the loop accepted.
\<close>

definition split_line :: "int \<Rightarrow> string \<Rightarrow> shell \<Rightarrow> fault + shell" where
  "split_line getpid userInput s =
     (case strtok_r CHR '' '' (strip_newline userInput) of
        None \<Rightarrow> Inl NullPointer
      | Some (token, saveptr) \<Rightarrow>
          (case token_loop getpid saveptr 1 ((cmdLineArgs s)(0 := Some token)) of
             Inl e \<Rightarrow> Inl e
           | Inr (cmdNumber, args) \<Rightarrow>
               (case io_loop 0 cmdNumber 0 (s\<lparr>cmdLineArgs := args\<rparr>) of
                  Inl e \<Rightarrow> Inl e
                | Inr (IOstart, s') \<Rightarrow>
                    Inr (if IOstart \<noteq> 0
                         then s'\<lparr>cmdLineArgs := clear_from IOstart (cmdLineArgs s')\<rparr>
                         else s'))))"

text \<open>
  The prompt loop. The shell's input is a list of turns: what \<^verbatim>\<open>waitpid\<close> finds for
  each process during the turn, and the line \<^verbatim>\<open>fgets\<close> then delivers (with its
  newline). The source does not test \<^verbatim>\<open>fgets\<close> for the end of the input; the model
  stops there, with \<open>None\<close>. \<open>junk\<close> is the value of the uninitialised
  \<^verbatim>\<open>childStatus\<close>.
\<close>

type_synonym turn = "(int \<Rightarrow> wait_ret) \<times> string"

fun prompt_loop ::
  "int \<Rightarrow> turn list \<Rightarrow> shell \<Rightarrow> event list \<times> (shell \<times> string \<times> turn list) option"
where
  "prompt_loop junk [] s = ([], None)"
| "prompt_loop junk ((w, userInput) # turns) s =
     (let (s', ev) = checkBackgroundProcessTermination w junk s;
          out = ev @ [Stdout '': '']
      in if 1 < length userInput \<and> userInput ! 0 \<noteq> CHR ''#''
         then (out, Some (s', userInput, turns))
         else (let (out', r) = prompt_loop junk turns s' in (out @ out', r)))"

definition getCommandLineArguments ::
  "int \<Rightarrow> int \<Rightarrow> turn list \<Rightarrow> shell \<Rightarrow> nat \<Rightarrow> event list \<times> (fault + shell \<times> turn list)"
where
  "getCommandLineArguments getpid junk turns s maxArgs =
     (case prompt_loop junk turns s of
        (out, None) \<Rightarrow> (out, Inl EndOfInput)
      | (out, Some (s', userInput, turns')) \<Rightarrow>
          (out, (case split_line getpid userInput s' of
                   Inl e \<Rightarrow> Inl e
                 | Inr s'' \<Rightarrow> Inr (s'', turns'))))"

text \<open>
  The vector \<^verbatim>\<open>execvp\<close> reads from \<^verbatim>\<open>shell->cmdLineArgs\<close>: the entries from index
  \<open>x\<close> up to the first null pointer.
\<close>

function argv_from :: "(nat \<Rightarrow> string option) \<Rightarrow> nat \<Rightarrow> string list" where
  "argv_from args x =
     (if x < MAX_ARGS then
        (case args x of None \<Rightarrow> [] | Some arg \<Rightarrow> arg # argv_from args (x + 1))
      else [])"
  by pat_completeness auto
termination
  by (relation "measure (\<lambda>(args, x). MAX_ARGS - x)") auto

declare argv_from.simps [simp del]

definition exec_vector :: "shell \<Rightarrow> string list" where
  "exec_vector s = argv_from (cmdLineArgs s) 0"

subsection \<open>Creating a process\<close>

text \<open>
  What the child process has done to itself when it ends or is replaced: the
  disposition of the interrupt signal, where its standard input and standard output
  point, what it printed, whether it called \<^verbatim>\<open>execvp\<close>, and how it went on: it left
  through \<^verbatim>\<open>exit\<close> with a status, or \<^verbatim>\<open>execvp\<close> replaced it by the program.
\<close>

datatype disposition = SIG_DFL | SIG_IGN

datatype target = Inherited | File string

datatype ending = Exits int | Replaced

record child =
  sigint :: disposition
  fd0 :: target
  fd1 :: target
  printed :: "event list"
  exec_called :: bool
  ending :: ending

text \<open>
  The first block of the child: the redirection of standard input. The result is the
  exit of the child (status and what it printed) or the new target of descriptor 0.
\<close>

definition redirect_input :: "kernel \<Rightarrow> shell \<Rightarrow> int \<times> event list + target" where
  "redirect_input k s =
     (if inputFile s \<noteq> None \<or> bgFlag s = 1 then
        (let source = (case inputFile s of Some file \<Rightarrow> file | None \<Rightarrow> ''/dev/null'') in
         if \<not> open_rd k source then
           Inl (1, [Stdout (''Cannot open '' @ str_arg (inputFile s) @ '' for input''
                            @ [newline])])
         else if \<not> dup2_ok k 0 then
           Inl (2, [Perror ''Unable to reroute stdin to requested file''])
         else Inr (File source))
      else Inr Inherited)"

text \<open>The second block: standard output. Its message says \<^verbatim>\<open>for input\<close> as well.\<close>

definition redirect_output :: "kernel \<Rightarrow> shell \<Rightarrow> int \<times> event list + target" where
  "redirect_output k s =
     (if outputFile s \<noteq> None \<or> bgFlag s = 1 then
        (let dest = (case outputFile s of Some file \<Rightarrow> file | None \<Rightarrow> ''/dev/null'') in
         if \<not> open_wr k dest then
           Inl (1, [Stdout (''Cannot open '' @ str_arg (outputFile s) @ '' for input''
                            @ [newline])])
         else if \<not> dup2_ok k 1 then
           Inl (2, [Perror ''Unable to reroute stdout to requested file''])
         else Inr (File dest))
      else Inr Inherited)"

text \<open>
  \<^verbatim>\<open>case 0\<close> of \<^verbatim>\<open>createNewProcess\<close>. The child starts with the disposition the
  shell has, which \<^verbatim>\<open>main\<close> set to \<^verbatim>\<open>SIG_IGN\<close>. \<^verbatim>\<open>perror\<close> of a null pointer prints
  no prefix.
\<close>

definition createNewProcess_child :: "kernel \<Rightarrow> int \<Rightarrow> shell \<Rightarrow> child" where
  "createNewProcess_child k fgFlag s =
     (let disp = (if bgFlag s = 0 \<or> fgFlag = 1 then SIG_DFL else SIG_IGN) in
      case redirect_input k s of
        Inl (status, out) \<Rightarrow>
          \<lparr> sigint = disp, fd0 = Inherited, fd1 = Inherited, printed = out,
            exec_called = False, ending = Exits status \<rparr>
      | Inr new0 \<Rightarrow>
          (case redirect_output k s of
             Inl (status, out) \<Rightarrow>
               \<lparr> sigint = disp, fd0 = new0, fd1 = Inherited, printed = out,
                 exec_called = False, ending = Exits status \<rparr>
           | Inr new1 \<Rightarrow>
               if execvp_ok k (cmdLineArgs s 0) then
                 \<lparr> sigint = disp, fd0 = new0, fd1 = new1, printed = [],
                   exec_called = True, ending = Replaced \<rparr>
               else
                 \<lparr> sigint = disp, fd0 = new0, fd1 = new1,
                   printed = [Perror (case cmdLineArgs s 0 of None \<Rightarrow> [] | Some c \<Rightarrow> c)],
                   exec_called = True, ending = Exits EXIT_FAILURE \<rparr>))"

text \<open>
  \<^verbatim>\<open>default\<close> of \<^verbatim>\<open>createNewProcess\<close>: the parent, with the identifier of the child
  in \<^verbatim>\<open>shell->childPID\<close>. \<open>found\<close> is what the blocking \<^verbatim>\<open>waitpid\<close> finds, if it is
  called.
\<close>

definition createNewProcess_parent :: "int \<Rightarrow> wait_ret \<Rightarrow> shell \<Rightarrow> shell \<times> event list" where
  "createNewProcess_parent fgFlag found s =
     (if bgFlag s = 1 \<and> fgFlag = 0 then
        (s\<lparr>bgProcesses := register_loop 0 (childPID s) (bgProcesses s)\<rparr>,
         [Stdout (''Background PID is '' @ dec (childPID s) @ [newline])])
      else
        (let (r, st) = waitpid found (childPID s) (exitStatus s) in
         (s\<lparr>exitStatus := st\<rparr>,
          Waitpid (childPID s) 0
            # (if WIFSIGNALED st
               then [Stdout (''terminated by signal '' @ dec (WTERMSIG st) @ [newline])]
               else []))))"

text \<open>
  \<^verbatim>\<open>createNewProcess\<close>, in the process that \<^verbatim>\<open>fork\<close> returns \<open>forked\<close> to: the shell
  ends (\<^verbatim>\<open>fork\<close> failed), or this is the child, or this is the shell going on.
\<close>

datatype outcome =
    ShellExits int "event list"
  | InChild child
  | InParent shell "event list"

definition createNewProcess :: "kernel \<Rightarrow> int \<Rightarrow> int \<Rightarrow> wait_ret \<Rightarrow> shell \<Rightarrow> outcome" where
  "createNewProcess k fgFlag forked found s =
     (let s1 = s\<lparr>childPID := forked\<rparr> in
      if forked = - 1 then ShellExits 1 [Perror (''fork() failed!'' @ [newline])]
      else if forked = 0 then InChild (createNewProcess_child k fgFlag s1)
      else
        (let (s2, out) = createNewProcess_parent fgFlag found s1 in InParent s2 out))"

subsection \<open>Reading a trace\<close>


text \<open>The prompt, and the entries of a trace that are a prompt or the entry of the
  reap operation.\<close>

definition prompt :: event where
  "prompt = Stdout '': ''"


subsection \<open>Sample inputs\<close>

text \<open>The number of the signal that the terminal sends for Ctrl-Z on Linux.\<close>

definition SIGTSTP :: int where
  "SIGTSTP = 20"

text \<open>A line as \<^verbatim>\<open>fgets\<close> delivers it.\<close>

definition line :: "string \<Rightarrow> string" where
  "line content = content @ [newline]"

text \<open>
  A system in which \<^verbatim>\<open>/dev/null\<close> can be opened, the file \<^verbatim>\<open>out\<close> can be written,
  no other file can be opened, \<^verbatim>\<open>/root\<close> is the only directory that can be entered,
  and \<^verbatim>\<open>cat\<close> is the only program.
\<close>

definition sample_kernel :: kernel where
  "sample_kernel =
     \<lparr> cwd = ''/tmp'', HOME = Some ''/root'',
       enter = (\<lambda>dir path. if path = ''/root'' then Some ''/root'' else None),
       open_rd = (\<lambda>path. path = ''/dev/null''),
       open_wr = (\<lambda>path. path = ''/dev/null'' \<or> path = ''out''),
       dup2_ok = (\<lambda>fd. True),
       execvp_ok = (\<lambda>file. file = Some ''cat'') \<rparr>"

text \<open>The same system, except that standard input cannot be redirected: \<^verbatim>\<open>dup2\<close> to
  descriptor 0 fails.\<close>

definition stuck_kernel :: kernel where
  "stuck_kernel = sample_kernel\<lparr>dup2_ok := (\<lambda>fd. fd \<noteq> 0)\<rparr>"

text \<open>No background process has ended.\<close>

definition nothing_ended :: "int \<Rightarrow> wait_ret" where
  "nothing_ended p = Running"

text \<open>The shell after \<^verbatim>\<open>getCommandLineArguments\<close> has split the given line, in a shell
  with process identifier 1234 that has run no command yet.\<close>

definition shell_of :: "string \<Rightarrow> shell" where
  "shell_of content =
     (case split_line 1234 (line content) (shellSetUp 1234) of
        Inr s \<Rightarrow> s
      | Inl e \<Rightarrow> shellSetUp 1234)"

text \<open>A table with 50 processes, and a shell that holds it and is asked for one more.\<close>

definition full_table :: "int list" where
  "full_table = map (\<lambda>i. 2000 + int i) [0..<50]"

definition full_shell :: shell where
  "full_shell = (shellSetUp 1234)\<lparr>bgProcesses := full_table, bgFlag := 1\<rparr>"

text \<open>
  A table with two processes, in a shell whose last foreground command left with exit
  value 1; process 2001 has ended with exit value 1 and process 2003 still runs.
\<close>

definition busy_table :: "int list" where
  "busy_table = (replicate 50 0)[1 := 2001, 3 := 2003]"

definition busy_shell :: shell where
  "busy_shell = (shellSetUp 1234)\<lparr>bgProcesses := busy_table, exitStatus := 256\<rparr>"

definition one_ended :: "int \<Rightarrow> wait_ret" where
  "one_ended p = (if p = 2001 then Reaped 256 else Running)"


text \<open>An empty line, a comment and a command.\<close>

definition three_turns :: "turn list" where
  "three_turns =
     [(one_ended, line []), (nothing_ended, line ''# note''), (nothing_ended, line ''cat'')]"

section \<open>Properties\<close>

text \<open>The equations that evaluate \<open>split_line\<close> on a given line.\<close>

lemmas split_line_eval =
  split_line_def strip_newline_def strtok_r_def newline_def line_def token_loop.simps
  shellSetUp_def io_loop.simps arg_at_def MAX_ARGS_def exec_vector_def argv_from.simps
  pidReplacement_def pidReplacement_loop.simps dec_def dec_nat.simps clear_from_def

lemmas shell_of_eval = shell_of_def split_line_eval

text \<open>Induction over the index of a loop that runs up to 50.\<close>

lemma slots_induct [case_names slot]:
  fixes x :: nat
  assumes slot: "\<And>x. (x < 50 \<Longrightarrow> P (Suc x)) \<Longrightarrow> P x"
  shows "P x"
proof (induction "50 - x" arbitrary: x)
  case (0 x)
  show ?case
    by (rule slot) (use 0 in simp)
next
  case (Suc n x)
  show ?case
  proof (rule slot)
    assume "x < 50"
    with Suc.hyps(2) have "n = 50 - Suc x" by simp
    then show "P (Suc x)" by (rule Suc.hyps(1))
  qed
qed

subsection \<open>The mode controller\<close>

text \<open>
  C6, as amended. The flag starts at 0 (\<open>NORMAL\<close>); a delivery takes 0 to 1 and 1 to 0.
  Two deliveries from \<open>NORMAL\<close> end in \<open>NORMAL\<close> and print the entering notice, then the
  exiting notice; two deliveries from \<open>FOREGROUND_ONLY\<close> end in \<open>FOREGROUND_ONLY\<close> and
  print the exiting notice, then the entering notice.
\<close>

theorem mode_toggle_twice:
  "fgFlag_init = 0
   \<and> fst (handle_SIGTSTP signo 0) = 1 \<and> fst (handle_SIGTSTP signo 1) = 0
   \<and> deliver [signo, signo'] 0 = (0, [Stdout enterMessage, Stdout exitMessage])
   \<and> deliver [signo, signo'] 1 = (1, [Stdout exitMessage, Stdout enterMessage])"
  by (simp add: fgFlag_init_def handle_SIGTSTP_def)

text \<open>
  C6 as stated fails in the state \<open>FOREGROUND_ONLY\<close>: two deliveries print the exiting
  notice first, not the entering notice.
\<close>

theorem mode_toggle_order_counterexample:
  "snd (deliver [SIGTSTP, SIGTSTP] 1) = [Stdout exitMessage, Stdout enterMessage]
   \<and> snd (deliver [SIGTSTP, SIGTSTP] 1) \<noteq> [Stdout enterMessage, Stdout exitMessage]"
  by (simp add: handle_SIGTSTP_def enterMessage_def exitMessage_def)

subsection \<open>Expansion and extraction\<close>

text \<open>
  C1, the code at the failing inputs. In a shell with process identifier 1234 the line
  \<^verbatim>\<open>$$ $$\<close> gives the vector \<^verbatim>\<open>$$\<close>, \<^verbatim>\<open>1234\<close>: the first token is stored without a
  call of \<open>pidReplacement\<close>. The token \<^verbatim>\<open>100%$$\<close> becomes \<^verbatim>\<open>100%d\<close>: the token is
  used as a format, in which the \<^verbatim>\<open>%\<close> of the token and the \<^verbatim>\<open>%\<close> that replaced the
  first \<^verbatim>\<open>$\<close> read as \<^verbatim>\<open>%%\<close>. In the tokens after the first that hold no
  \<^verbatim>\<open>%\<close>, every \<^verbatim>\<open>$$\<close> is replaced and a single \<^verbatim>\<open>$\<close> at the end stays:
  \<^verbatim>\<open>echo a$$b$$ $$$\<close> gives \<^verbatim>\<open>echo\<close>, \<^verbatim>\<open>a1234b1234\<close>, \<^verbatim>\<open>1234$\<close>.
\<close>

theorem first_token_not_expanded:
  "map_sum id exec_vector (split_line 1234 (line ''$$ $$'') (shellSetUp 1234))
     = Inr [''$$'', ''1234'']
   \<and> map_sum id exec_vector (split_line 1234 (line ''echo a$$b$$ $$$'') (shellSetUp 1234))
     = Inr [''echo'', ''a1234b1234'', ''1234$'']
   \<and> pidReplacement 1234 ''100%$$'' = Inr ''100%d''"
  by (simp add: split_line_eval)

text \<open>
  C5, the code at the failing inputs. An operator in the first position stays in the
  vector, with everything after it, because index 0 also means that no operator was
  seen: \<^verbatim>\<open>< file\<close> gives the vector \<^verbatim>\<open><\<close>, \<^verbatim>\<open>file\<close>, and \<^verbatim>\<open>> out cat &\<close> gives
  \<^verbatim>\<open>>\<close>, \<^verbatim>\<open>out\<close>, \<^verbatim>\<open>cat\<close>. With the operator in a later position the vector is cut
  there: \<^verbatim>\<open>cat < in > out &\<close> gives \<^verbatim>\<open>cat\<close>.
\<close>

theorem operator_first_not_removed:
  "map_sum id (\<lambda>s. (exec_vector s, inputFile s, outputFile s, bgFlag s))
     (split_line 1234 (line ''< file'') (shellSetUp 1234))
     = Inr ([''<'', ''file''], Some ''file'', None, 0)
   \<and> map_sum id (\<lambda>s. (exec_vector s, inputFile s, outputFile s, bgFlag s))
     (split_line 1234 (line ''> out cat &'') (shellSetUp 1234))
     = Inr ([''>'', ''out'', ''cat''], None, Some ''out'', 1)
   \<and> map_sum id (\<lambda>s. (exec_vector s, inputFile s, outputFile s, bgFlag s))
     (split_line 1234 (line ''cat < in > out &'') (shellSetUp 1234))
     = Inr ([''cat''], Some ''in'', Some ''out'', 1)"
  by (simp add: split_line_eval)

subsection \<open>The child process\<close>

text \<open>
  C4, the code at the failing input. In foreground-only mode (the flag is 1) the child
  for \<^verbatim>\<open>cat &\<close> restores the default disposition of the interrupt signal, as the child
  for \<^verbatim>\<open>cat\<close> does, but its standard input and standard output are redirected to
  \<^verbatim>\<open>/dev/null\<close>, while the child for \<^verbatim>\<open>cat\<close> keeps those of the shell. The parent
  of the child for \<^verbatim>\<open>cat &\<close> does wait for it and records its status.
\<close>

theorem foreground_only_null_redirect:
  "map_sum id
     (\<lambda>s. (exec_vector s, bgFlag s, sigint (createNewProcess_child sample_kernel 1 s),
           fd0 (createNewProcess_child sample_kernel 1 s),
           fd1 (createNewProcess_child sample_kernel 1 s)))
     (split_line 1234 (line ''cat &'') (shellSetUp 1234))
     = Inr ([''cat''], 1, SIG_DFL, File ''/dev/null'', File ''/dev/null'')
   \<and> map_sum id
     (\<lambda>s. (exec_vector s, bgFlag s, sigint (createNewProcess_child sample_kernel 1 s),
           fd0 (createNewProcess_child sample_kernel 1 s),
           fd1 (createNewProcess_child sample_kernel 1 s)))
     (split_line 1234 (line ''cat'') (shellSetUp 1234))
     = Inr ([''cat''], 0, SIG_DFL, Inherited, Inherited)
   \<and> createNewProcess_parent 1 (Reaped 0) ((shell_of ''cat &'')\<lparr>childPID := 4242\<rparr>)
     = ((shell_of ''cat &'')\<lparr>childPID := 4242, exitStatus := 0\<rparr>, [Waitpid 4242 0])"
  by (simp add: split_line_eval createNewProcess_child_def redirect_input_def
      redirect_output_def sample_kernel_def createNewProcess_parent_def waitpid_def
      WIFSIGNALED_def)

text \<open>
  C3, as amended. A child whose input file or output file cannot be opened leaves before
  it calls \<^verbatim>\<open>execvp\<close>, with a status that is not zero: 1 or 2. Where the failed
  \<^verbatim>\<open>open\<close> is what ends the child (the input file always; the output file when
  standard input was set up before it), the child says so and the status is 1. A child
  whose redirections succeeded and whose program cannot be run has called \<^verbatim>\<open>execvp\<close>,
  reports the name of the command through \<^verbatim>\<open>perror\<close> and leaves with
  \<^verbatim>\<open>EXIT_FAILURE\<close>, which is 1 as well.
\<close>

theorem failure_statuses:
  "((inputFile s = Some path \<and> \<not> open_rd k path)
      \<or> (outputFile s = Some path' \<and> \<not> open_wr k path') \<longrightarrow>
      \<not> exec_called (createNewProcess_child k fg s)
      \<and> (ending (createNewProcess_child k fg s) = Exits 1
         \<or> ending (createNewProcess_child k fg s) = Exits 2))
   \<and> (inputFile s = Some path \<and> \<not> open_rd k path \<longrightarrow>
      ending (createNewProcess_child k fg s) = Exits 1
      \<and> \<not> exec_called (createNewProcess_child k fg s)
      \<and> printed (createNewProcess_child k fg s)
        = [Stdout (''Cannot open '' @ path @ '' for input'' @ [CHR 0x0A])])
   \<and> (redirect_input k s = Inr new0 \<and> outputFile s = Some path \<and> \<not> open_wr k path \<longrightarrow>
      ending (createNewProcess_child k fg s) = Exits 1
      \<and> \<not> exec_called (createNewProcess_child k fg s)
      \<and> printed (createNewProcess_child k fg s)
        = [Stdout (''Cannot open '' @ path @ '' for input'' @ [CHR 0x0A])])
   \<and> (redirect_input k s = Inr new0 \<and> redirect_output k s = Inr new1
       \<and> cmdLineArgs s 0 = Some name \<and> \<not> execvp_ok k (Some name) \<longrightarrow>
      ending (createNewProcess_child k fg s) = Exits EXIT_FAILURE
      \<and> exec_called (createNewProcess_child k fg s)
      \<and> printed (createNewProcess_child k fg s) = [Perror name])
   \<and> EXIT_FAILURE = 1"
proof -
  have early: "\<not> exec_called (createNewProcess_child k fg s)
      \<and> (ending (createNewProcess_child k fg s) = Exits 1
         \<or> ending (createNewProcess_child k fg s) = Exits 2)"
    if "(inputFile s = Some path \<and> \<not> open_rd k path)
      \<or> (outputFile s = Some path' \<and> \<not> open_wr k path')"
  proof (cases "redirect_input k s")
    case (Inl failed)
    then have "fst failed = 1 \<or> fst failed = 2"
      by (auto simp: redirect_input_def Let_def split: if_splits)
    with Inl show ?thesis
      by (auto simp: createNewProcess_child_def split_beta)
  next
    case (Inr new0)
    with that have out: "outputFile s = Some path'" "\<not> open_wr k path'"
      by (auto simp: redirect_input_def Let_def split: if_splits)
    then have "redirect_output k s
        = Inl (1, [Stdout (''Cannot open '' @ path' @ '' for input'' @ [newline])])"
      by (simp add: redirect_output_def str_arg_def)
    with Inr show ?thesis
      by (simp add: createNewProcess_child_def)
  qed
  have rest: "(inputFile s = Some path \<and> \<not> open_rd k path \<longrightarrow>
      ending (createNewProcess_child k fg s) = Exits 1
      \<and> \<not> exec_called (createNewProcess_child k fg s)
      \<and> printed (createNewProcess_child k fg s)
        = [Stdout (''Cannot open '' @ path @ '' for input'' @ [CHR 0x0A])])
   \<and> (redirect_input k s = Inr new0 \<and> outputFile s = Some path \<and> \<not> open_wr k path \<longrightarrow>
      ending (createNewProcess_child k fg s) = Exits 1
      \<and> \<not> exec_called (createNewProcess_child k fg s)
      \<and> printed (createNewProcess_child k fg s)
        = [Stdout (''Cannot open '' @ path @ '' for input'' @ [CHR 0x0A])])
   \<and> (redirect_input k s = Inr new0 \<and> redirect_output k s = Inr new1
       \<and> cmdLineArgs s 0 = Some name \<and> \<not> execvp_ok k (Some name) \<longrightarrow>
      ending (createNewProcess_child k fg s) = Exits EXIT_FAILURE
      \<and> exec_called (createNewProcess_child k fg s)
      \<and> printed (createNewProcess_child k fg s) = [Perror name])
   \<and> EXIT_FAILURE = 1"
    by (simp add: createNewProcess_child_def redirect_input_def redirect_output_def
        str_arg_def EXIT_FAILURE_def newline_def)
  from early rest show ?thesis
    by blast
qed

text \<open>
  The cases of C3 as amended, on the lines \<^verbatim>\<open>cat < missing\<close>, \<^verbatim>\<open>cat > /no/file\<close>
  and \<^verbatim>\<open>nosuchcmd\<close>; and on \<^verbatim>\<open>cat < /dev/null > /no/file\<close> in the system where
  standard input cannot be redirected, in which the child leaves with status 2 before
  it tries to open the output file.
\<close>

theorem failure_statuses_witness:
  "inputFile (shell_of ''cat < missing'') = Some ''missing''
   \<and> \<not> open_rd sample_kernel ''missing''
   \<and> ending (createNewProcess_child sample_kernel 0 (shell_of ''cat < missing'')) = Exits 1
   \<and> redirect_input sample_kernel (shell_of ''cat > /no/file'') = Inr Inherited
   \<and> outputFile (shell_of ''cat > /no/file'') = Some ''/no/file''
   \<and> \<not> open_wr sample_kernel ''/no/file''
   \<and> ending (createNewProcess_child sample_kernel 0 (shell_of ''cat > /no/file'')) = Exits 1
   \<and> redirect_input sample_kernel (shell_of ''nosuchcmd'') = Inr Inherited
   \<and> redirect_output sample_kernel (shell_of ''nosuchcmd'') = Inr Inherited
   \<and> cmdLineArgs (shell_of ''nosuchcmd'') 0 = Some ''nosuchcmd''
   \<and> \<not> execvp_ok sample_kernel (Some ''nosuchcmd'')
   \<and> ending (createNewProcess_child sample_kernel 0 (shell_of ''nosuchcmd'')) = Exits 1
   \<and> printed (createNewProcess_child sample_kernel 0 (shell_of ''nosuchcmd''))
     = [Perror ''nosuchcmd'']
   \<and> outputFile (shell_of ''cat < /dev/null > /no/file'') = Some ''/no/file''
   \<and> \<not> open_wr stuck_kernel ''/no/file''
   \<and> \<not> exec_called
         (createNewProcess_child stuck_kernel 0 (shell_of ''cat < /dev/null > /no/file''))
   \<and> ending (createNewProcess_child stuck_kernel 0 (shell_of ''cat < /dev/null > /no/file''))
     = Exits 2"
proof -
  have a: "inputFile (shell_of ''cat < missing'') = Some ''missing''"
    by (simp add: shell_of_eval)
  have b: "\<not> open_rd sample_kernel ''missing''"
    by (simp add: sample_kernel_def)
  have c: "redirect_input sample_kernel (shell_of ''cat > /no/file'') = Inr Inherited"
    by (simp add: shell_of_eval redirect_input_def)
  have d: "outputFile (shell_of ''cat > /no/file'') = Some ''/no/file''"
    by (simp add: shell_of_eval)
  have e: "\<not> open_wr sample_kernel ''/no/file''"
    by (simp add: sample_kernel_def)
  have f: "redirect_input sample_kernel (shell_of ''nosuchcmd'') = Inr Inherited"
    by (simp add: shell_of_eval redirect_input_def)
  have g: "redirect_output sample_kernel (shell_of ''nosuchcmd'') = Inr Inherited"
    by (simp add: shell_of_eval redirect_output_def)
  have h: "cmdLineArgs (shell_of ''nosuchcmd'') 0 = Some ''nosuchcmd''"
    by (simp add: shell_of_eval)
  have i: "\<not> execvp_ok sample_kernel (Some ''nosuchcmd'')"
    by (simp add: sample_kernel_def)
  have j: "outputFile (shell_of ''cat < /dev/null > /no/file'') = Some ''/no/file''"
    by (simp add: shell_of_eval)
  have k: "\<not> open_wr stuck_kernel ''/no/file''"
    by (simp add: stuck_kernel_def sample_kernel_def)
  have l: "ending (createNewProcess_child stuck_kernel 0
      (shell_of ''cat < /dev/null > /no/file'')) = Exits 2"
    by (simp add: shell_of_eval createNewProcess_child_def redirect_input_def
        stuck_kernel_def sample_kernel_def)
  from a b c d e f g h i j k l
    failure_statuses [where s = "shell_of ''cat < missing''" and path = "''missing''"
        and k = sample_kernel and fg = 0]
    failure_statuses [where s = "shell_of ''cat > /no/file''" and path = "''/no/file''"
        and k = sample_kernel and fg = 0 and ?new0.0 = Inherited]
    failure_statuses [where s = "shell_of ''nosuchcmd''" and name = "''nosuchcmd''"
        and k = sample_kernel and fg = 0 and ?new0.0 = Inherited and ?new1.0 = Inherited]
    failure_statuses [where s = "shell_of ''cat < /dev/null > /no/file''"
        and path' = "''/no/file''" and k = stuck_kernel and fg = 0]
  show ?thesis
    by simp
qed

text \<open>
  C3 as stated fails: the child for \<^verbatim>\<open>cat < missing\<close>, whose input file cannot be
  opened, and the child for \<^verbatim>\<open>nosuchcmd\<close>, whose program does not exist, leave with
  the same status, 1.
\<close>

theorem open_and_exec_failure_same_status:
  "ending (createNewProcess_child sample_kernel 0 (shell_of ''cat < missing'')) = Exits 1
   \<and> \<not> exec_called (createNewProcess_child sample_kernel 0 (shell_of ''cat < missing''))
   \<and> ending (createNewProcess_child sample_kernel 0 (shell_of ''nosuchcmd'')) = Exits 1
   \<and> exec_called (createNewProcess_child sample_kernel 0 (shell_of ''nosuchcmd''))
   \<and> ending (createNewProcess_child sample_kernel 0 (shell_of ''cat < missing''))
     = ending (createNewProcess_child sample_kernel 0 (shell_of ''nosuchcmd''))"
  by (simp add: shell_of_eval createNewProcess_child_def redirect_input_def
      redirect_output_def sample_kernel_def EXIT_FAILURE_def)

subsection \<open>The table of background processes\<close>

text \<open>A table without an empty index is left as it is.\<close>

lemma register_loop_full:
  "\<forall>i. x \<le> i \<and> i < 50 \<longrightarrow> bg ! i \<noteq> 0 \<Longrightarrow> register_loop x child bg = bg"
proof (induction x rule: slots_induct)
  case (slot x)
  show ?case
    by (subst register_loop.simps) (use slot in simp)
qed

text \<open>
  C2, the code at every failing input. With all 50 entries of the table in use and the
  mode flag at 0, the shell that starts one more background process leaves the table as
  it is, so the new process is in no entry, and prints nothing but the usual line with
  the identifier of the process.
\<close>

theorem full_table_drops_job:
  assumes "length (bgProcesses s) = 50" and "list_all (\<lambda>p. p \<noteq> 0) (bgProcesses s)"
    and "bgFlag s = 1" and "forked \<noteq> - 1" and "forked \<noteq> 0"
  shows "createNewProcess k 0 forked found s
     = InParent (s\<lparr>childPID := forked\<rparr>)
         [Stdout (''Background PID is '' @ dec forked @ [newline])]"
proof -
  from assms(1,2) have "\<forall>i. 0 \<le> i \<and> i < 50 \<longrightarrow> bgProcesses s ! i \<noteq> 0"
    by (simp add: list_all_length)
  then have "register_loop 0 forked (bgProcesses s) = bgProcesses s"
    by (rule register_loop_full)
  with assms(3-5) show ?thesis
    by (simp add: createNewProcess_def createNewProcess_parent_def)
qed

text \<open>C2 on a table that holds the processes 2000 to 2049, for the new process
  4242.\<close>

theorem full_table_drops_job_witness:
  "length (bgProcesses full_shell) = 50 \<and> list_all (\<lambda>p. p \<noteq> 0) (bgProcesses full_shell)
   \<and> bgFlag full_shell = 1
   \<and> createNewProcess sample_kernel 0 4242 Running full_shell
     = InParent (full_shell\<lparr>childPID := 4242\<rparr>) [Stdout (line ''Background PID is 4242'')]
   \<and> bgProcesses (full_shell\<lparr>childPID := 4242\<rparr>) = full_table
   \<and> 4242 \<notin> set full_table"
proof -
  have a: "length (bgProcesses full_shell) = 50"
    by (simp add: full_shell_def full_table_def)
  have b: "list_all (\<lambda>p. p \<noteq> 0) (bgProcesses full_shell)"
    by (simp add: full_shell_def full_table_def list_all_iff)
  have c: "bgFlag full_shell = 1"
    by (simp add: full_shell_def)
  have d: "dec 4242 = ''4242''"
    by (simp add: dec_def dec_nat.simps)
  have e: "4242 \<notin> set full_table"
    by (auto simp: full_table_def)
  from full_table_drops_job [OF a b c, of 4242 sample_kernel Running] a b c d e
  show ?thesis
    by (simp add: line_def full_shell_def)
qed

text \<open>The loop of the reap operation, with the pairs taken apart.\<close>

lemma reap_loop_unfold:
  "reap_loop w x st bg =
     (if x < 50 then
        (if bg ! x \<noteq> 0 then
           (if fst (waitpid (w (bg ! x)) (bg ! x) st) \<noteq> 0 then
              (fst (reap_loop w (Suc x) (snd (waitpid (w (bg ! x)) (bg ! x) st)) (bg[x := 0])),
               Waitpid (bg ! x) WNOHANG
                 # report (bg ! x) (snd (waitpid (w (bg ! x)) (bg ! x) st))
                 # snd (reap_loop w (Suc x) (snd (waitpid (w (bg ! x)) (bg ! x) st)) (bg[x := 0])))
            else
              (fst (reap_loop w (Suc x) (snd (waitpid (w (bg ! x)) (bg ! x) st)) bg),
               Waitpid (bg ! x) WNOHANG
                 # snd (reap_loop w (Suc x) (snd (waitpid (w (bg ! x)) (bg ! x) st)) bg)))
         else reap_loop w (Suc x) st bg)
      else (bg, []))"
  by (subst reap_loop.simps) (simp add: Let_def split_beta)

lemma reap_loop_length: "length (fst (reap_loop w x st bg)) = length bg"
proof (induction x arbitrary: st bg rule: slots_induct)
  case (slot x)
  show ?case
    by (subst reap_loop_unfold) (use slot in simp)
qed



lemma reap_loop_idle:
  "\<forall>i. x \<le> i \<and> i < 50 \<longrightarrow> bg ! i = 0 \<Longrightarrow> reap_loop w x st bg = (bg, [])"
proof (induction x arbitrary: st rule: slots_induct)
  case (slot x)
  show ?case
    by (subst reap_loop_unfold) (use slot in simp)
qed




lemma prompt_loop_unfold:
  "prompt_loop junk ((w, userInput) # turns) s =
     (if 1 < length userInput \<and> userInput ! 0 \<noteq> CHR ''#''
      then (snd (checkBackgroundProcessTermination w junk s) @ [Stdout '': ''],
            Some (fst (checkBackgroundProcessTermination w junk s), userInput, turns))
      else ((snd (checkBackgroundProcessTermination w junk s) @ [Stdout '': ''])
              @ fst (prompt_loop junk turns (fst (checkBackgroundProcessTermination w junk s))),
            snd (prompt_loop junk turns (fst (checkBackgroundProcessTermination w junk s)))))"
  by (simp add: split_beta Let_def)


lemma reap_idle:
  assumes "length (bgProcesses s) = 50" and "list_all (\<lambda>p. p = 0) (bgProcesses s)"
  shows "checkBackgroundProcessTermination w junk s = (s, [Reap])"
proof -
  from assms have "\<forall>i. 0 \<le> i \<and> i < 50 \<longrightarrow> bgProcesses s ! i = 0"
    by (simp add: list_all_length)
  then have "reap_loop w 0 junk (bgProcesses s) = (bgProcesses s, [])"
    by (rule reap_loop_idle)
  then show ?thesis
    by (simp add: checkBackgroundProcessTermination_def)
qed




subsection \<open>The prompt loop\<close>

text \<open>In a shell that has started no background process the reap operation only
  returns.\<close>

lemma reap_idle_setup:
  "checkBackgroundProcessTermination w junk (shellSetUp p) = (shellSetUp p, [Reap])"
  by (rule reap_idle) (simp_all add: shellSetUp_def list_all_length)

text \<open>
  C7, the code at the failing input. A line of three spaces is longer than one character
  and does not start with \<^verbatim>\<open>#\<close>, so the prompt loop accepts it; the first call of
  \<^verbatim>\<open>strtok_r\<close> then finds no token and returns the null pointer, which is handed to
  \<^verbatim>\<open>strlen\<close>. On the empty line and on a comment the loop does prompt again: of
  the three lines, the empty one, \<^verbatim>\<open># note\<close> and \<^verbatim>\<open>cat\<close>, the third is the one that
  is split.
\<close>

theorem blank_line_reads_missing_token:
  "getCommandLineArguments 1234 0 [(nothing_ended, line ''   '')] (shellSetUp 1234) MAX_ARGS
     = ([Reap, prompt], Inl NullPointer)
   \<and> fst (getCommandLineArguments 1234 0 three_turns (shellSetUp 1234) MAX_ARGS)
     = [Reap, prompt, Reap, prompt, Reap, prompt]
   \<and> map_sum id (\<lambda>(s, turns). (exec_vector s, length turns))
       (snd (getCommandLineArguments 1234 0 three_turns (shellSetUp 1234) MAX_ARGS))
     = Inr ([''cat''], 0)"
proof -
  have blank: "prompt_loop 0 [(nothing_ended, line ''   '')] (shellSetUp 1234)
      = ([Reap, prompt], Some (shellSetUp 1234, line ''   '', []))"
    by (simp add: prompt_loop_unfold reap_idle_setup line_def newline_def prompt_def
        del: prompt_loop.simps(2))
  have fault: "split_line 1234 (line ''   '') (shellSetUp 1234) = Inl NullPointer"
    by (simp add: split_line_eval)
  have three: "prompt_loop 0 three_turns (shellSetUp 1234)
      = ([Reap, prompt, Reap, prompt, Reap, prompt], Some (shellSetUp 1234, line ''cat'', []))"
    by (simp add: three_turns_def prompt_loop_unfold reap_idle_setup line_def newline_def
        prompt_def del: prompt_loop.simps(2))
  have cat: "map_sum id exec_vector (split_line 1234 (line ''cat'') (shellSetUp 1234))
      = Inr [''cat'']"
    by (simp add: split_line_eval)
  from cat obtain sc
    where sc: "split_line 1234 (line ''cat'') (shellSetUp 1234) = Inr sc"
      "exec_vector sc = [''cat'']"
    by (cases "split_line 1234 (line ''cat'') (shellSetUp 1234)") auto
  show ?thesis
    by (simp add: getCommandLineArguments_def blank fault three sc del: prompt_loop.simps)
qed

subsection \<open>The recorded exit status and the working directory\<close>

text \<open>The loop over the arguments, the prompt loop and with them
  \<^verbatim>\<open>getCommandLineArguments\<close> leave \<^verbatim>\<open>exitStatus\<close> as it is.\<close>

lemma io_loop_exitStatus:
  "io_loop x cmdNumber IOstart s = Inr (IOstart', s') \<Longrightarrow> exitStatus s' = exitStatus s"
proof (induction x cmdNumber IOstart s rule: io_loop.induct)
  case (1 x cmdNumber IOstart s)
  from "1.prems" show ?case
    apply (subst (asm) io_loop.simps)
    apply (auto split: if_splits option.splits sum.splits dest: "1.IH")
    done
qed

lemma prompt_loop_exitStatus:
  "snd (prompt_loop junk turns s) = Some (s', userInput, turns') \<Longrightarrow> exitStatus s' = exitStatus s"
proof (induction turns arbitrary: s)
  case Nil
  then show ?case by simp
next
  case (Cons t turns)
  obtain w u where t: "t = (w, u)" by (cases t)
  have keep: "exitStatus (fst (checkBackgroundProcessTermination w junk s)) = exitStatus s"
    by (simp add: checkBackgroundProcessTermination_def split_beta)
  show ?case
  proof (cases "1 < length u \<and> u ! 0 \<noteq> CHR ''#''")
    case True
    with Cons.prems keep show ?thesis
      unfolding t prompt_loop_unfold if_P [OF True] by simp
  next
    case False
    with Cons.prems have "snd (prompt_loop junk turns (fst (checkBackgroundProcessTermination w junk s)))
        = Some (s', userInput, turns')"
      unfolding t prompt_loop_unfold if_not_P [OF False] by simp
    from Cons.IH [OF this] keep show ?thesis by simp
  qed
qed

lemma split_line_exitStatus:
  "split_line getpid userInput s = Inr s' \<Longrightarrow> exitStatus s' = exitStatus s"
  by (auto simp: split_line_def split: option.splits sum.splits prod.splits if_splits
      dest!: io_loop_exitStatus)

lemma getCommandLineArguments_exitStatus:
  assumes "snd (getCommandLineArguments getpid junk turns s maxArgs) = Inr (s', turns')"
  shows "exitStatus s' = exitStatus s"
proof (cases "snd (prompt_loop junk turns s)")
  case None
  with assms show ?thesis
    by (simp add: getCommandLineArguments_def split_beta)
next
  case (Some accepted)
  obtain s1 userInput turns1 where accepted: "accepted = (s1, userInput, turns1)"
    by (cases accepted)
  from Some accepted have "exitStatus s1 = exitStatus s"
    by (auto dest: prompt_loop_exitStatus)
  moreover from assms Some accepted have "split_line getpid userInput s1 = Inr s'"
    by (auto simp: getCommandLineArguments_def split_beta split: sum.splits)
  ultimately show ?thesis
    by (auto dest: split_line_exitStatus)
qed

text \<open>
  C9. The built-in commands \<^verbatim>\<open>cd\<close> and \<^verbatim>\<open>status\<close>, the reap operation,
  \<^verbatim>\<open>exitSmallShell\<close>, \<^verbatim>\<open>getCommandLineArguments\<close> and the parent that registers a
  background process leave \<^verbatim>\<open>exitStatus\<close> as it is. The parent that runs a command in
  the foreground calls \<^verbatim>\<open>waitpid\<close> without \<^verbatim>\<open>WNOHANG\<close> for its child, and the status
  of that child is what \<^verbatim>\<open>exitStatus\<close> then holds. What \<^verbatim>\<open>status\<close> prints is the same
  before and after each of the operations that leave \<^verbatim>\<open>exitStatus\<close> as it is.
\<close>

theorem exit_status_written_by_foreground_wait_only:
  "exitStatus (fst (changeShellDirectory s k)) = exitStatus s
   \<and> exitStatus (fst (printShellStatus s)) = exitStatus s
   \<and> exitStatus (fst (checkBackgroundProcessTermination w junk s)) = exitStatus s
   \<and> exitStatus (fst (exitSmallShell s)) = exitStatus s
   \<and> (snd (getCommandLineArguments getpid junk turns s maxArgs) = Inr (s', turns') \<longrightarrow>
        exitStatus s' = exitStatus s)
   \<and> (bgFlag s = 1 \<and> fg = 0 \<longrightarrow>
        exitStatus (fst (createNewProcess_parent fg found s)) = exitStatus s)
   \<and> (\<not> (bgFlag s = 1 \<and> fg = 0) \<longrightarrow>
        exitStatus (fst (createNewProcess_parent fg (Reaped st) s)) = st
        \<and> Waitpid (childPID s) 0 \<in> set (snd (createNewProcess_parent fg (Reaped st) s)))
   \<and> snd (printShellStatus (fst (changeShellDirectory s k))) = snd (printShellStatus s)
   \<and> snd (printShellStatus (fst (printShellStatus s))) = snd (printShellStatus s)
   \<and> snd (printShellStatus (fst (checkBackgroundProcessTermination w junk s)))
     = snd (printShellStatus s)
   \<and> (bgFlag s = 1 \<and> fg = 0 \<longrightarrow>
        snd (printShellStatus (fst (createNewProcess_parent fg found s)))
          = snd (printShellStatus s))"
  using getCommandLineArguments_exitStatus [of getpid junk turns s maxArgs s' turns']
  by (simp add: changeShellDirectory_def printShellStatus_def exitSmallShell_def
      checkBackgroundProcessTermination_def createNewProcess_parent_def waitpid_def
      split_beta)

text \<open>
  C9 in a shell whose last foreground command left with exit value 1: after a background
  process is registered and after the reap operation has reported the end of process
  2001, \<^verbatim>\<open>status\<close> prints \<^verbatim>\<open>exit value 1\<close>; after a foreground child was ended by
  signal 2 it prints \<^verbatim>\<open>terminated by signal 2\<close>.
\<close>

theorem exit_status_written_by_foreground_wait_only_witness:
  "bgFlag (busy_shell\<lparr>bgFlag := 1, childPID := 4242\<rparr>) = 1
   \<and> exitStatus (busy_shell\<lparr>bgFlag := 1, childPID := 4242\<rparr>) = 256
   \<and> exitStatus (fst (createNewProcess_parent 0 Running
        (busy_shell\<lparr>bgFlag := 1, childPID := 4242\<rparr>))) = 256
   \<and> snd (printShellStatus (fst (createNewProcess_parent 0 Running
        (busy_shell\<lparr>bgFlag := 1, childPID := 4242\<rparr>))))
     = [Stdout (line ''exit value 1'')]
   \<and> snd (printShellStatus (fst (checkBackgroundProcessTermination one_ended 0 busy_shell)))
     = [Stdout (line ''exit value 1'')]
   \<and> bgFlag busy_shell = 0
   \<and> exitStatus (fst (createNewProcess_parent 0 (Reaped 2) busy_shell)) = 2
   \<and> snd (printShellStatus (fst (createNewProcess_parent 0 (Reaped 2) busy_shell)))
     = [Stdout (line ''terminated by signal 2'')]
   \<and> map_sum id (\<lambda>(s, turns). exitStatus s)
       (snd (getCommandLineArguments 1234 0 three_turns busy_shell MAX_ARGS)) = Inr 256"
proof -
  let ?bg = "busy_shell\<lparr>bgFlag := 1, childPID := 4242\<rparr>"
  have a: "bgFlag ?bg = 1" and b: "exitStatus ?bg = 256" and c: "bgFlag busy_shell = 0"
    by (simp_all add: busy_shell_def shellSetUp_def)
  have d: "snd (printShellStatus busy_shell) = [Stdout (line ''exit value 1'')]"
    and e: "snd (printShellStatus ?bg) = [Stdout (line ''exit value 1'')]"
    by (simp_all add: printShellStatus_def busy_shell_def shellSetUp_def WIFEXITED_def
        WTERMSIG_def WEXITSTATUS_def dec_def dec_nat.simps line_def)
  have f: "snd (printShellStatus (busy_shell\<lparr>exitStatus := 2\<rparr>))
      = [Stdout (line ''terminated by signal 2'')]"
    by (simp add: printShellStatus_def WIFEXITED_def WTERMSIG_def dec_def dec_nat.simps
        line_def)
  have g: "fst (createNewProcess_parent 0 (Reaped 2) busy_shell) = busy_shell\<lparr>exitStatus := 2\<rparr>"
    using c by (simp add: createNewProcess_parent_def waitpid_def)
  obtain out res where r: "getCommandLineArguments 1234 0 three_turns busy_shell MAX_ARGS = (out, res)"
    by (cases "getCommandLineArguments 1234 0 three_turns busy_shell MAX_ARGS")
  have h: "\<exists>s' turns'. snd (getCommandLineArguments 1234 0 three_turns busy_shell MAX_ARGS)
      = Inr (s', turns')"
  proof -
    have accepted: "snd (prompt_loop 0 three_turns busy_shell)
        = Some (fst (checkBackgroundProcessTermination nothing_ended 0
                  (fst (checkBackgroundProcessTermination nothing_ended 0
                     (fst (checkBackgroundProcessTermination one_ended 0 busy_shell))))),
                line ''cat'', [])"
      by (simp add: three_turns_def prompt_loop_unfold line_def newline_def
          del: prompt_loop.simps(2))
    have "\<exists>s'. split_line 1234 (line ''cat'') s0 = Inr s'" for s0
      by (simp add: split_line_def strip_newline_def strtok_r_def newline_def line_def
          token_loop.simps io_loop.simps MAX_ARGS_def)
    then obtain s' where "split_line 1234 (line ''cat'')
        (fst (checkBackgroundProcessTermination nothing_ended 0
           (fst (checkBackgroundProcessTermination nothing_ended 0
              (fst (checkBackgroundProcessTermination one_ended 0 busy_shell)))))) = Inr s'"
      by blast
    with accepted show ?thesis
      by (simp add: getCommandLineArguments_def split_beta split: option.splits)
  qed
  then obtain s' turns'
    where i: "snd (getCommandLineArguments 1234 0 three_turns busy_shell MAX_ARGS) = Inr (s', turns')"
    by blast
  from a b c d e f g i
    exit_status_written_by_foreground_wait_only [where s = ?bg and fg = 0 and found = Running]
    exit_status_written_by_foreground_wait_only [where s = busy_shell and fg = 0 and st = 2
      and w = one_ended and junk = 0 and getpid = 1234 and turns = three_turns
      and maxArgs = MAX_ARGS and s' = s' and turns' = turns']
  show ?thesis
    by simp
qed

text \<open>
  C10. When the directory given to \<^verbatim>\<open>cd\<close> cannot be entered, when no directory is given
  and \<^verbatim>\<open>HOME\<close> is not set, and when no directory is given and the directory in
  \<^verbatim>\<open>HOME\<close> cannot be entered, \<^verbatim>\<open>changeShellDirectory\<close> leaves the shell and the
  working directory as they are and prints nothing.
\<close>

theorem failed_cd_changes_nothing:
  "(cmdLineArgs s 1 = Some path \<and> enter k (cwd k) path = None \<longrightarrow>
      changeShellDirectory s k = (s, k, []))
   \<and> (cmdLineArgs s 1 = None \<and> HOME k = None \<longrightarrow>
      changeShellDirectory s k = (s, k, []))
   \<and> (cmdLineArgs s 1 = None \<and> HOME k = Some path \<and> enter k (cwd k) path = None \<longrightarrow>
      changeShellDirectory s k = (s, k, []))"
  by (simp add: changeShellDirectory_def chdir_def)

text \<open>C10 for \<^verbatim>\<open>cd /nowhere\<close>, and for \<^verbatim>\<open>cd\<close> without \<^verbatim>\<open>HOME\<close> and with
  \<^verbatim>\<open>HOME=/gone\<close>; with \<^verbatim>\<open>HOME=/root\<close> the same \<^verbatim>\<open>cd\<close> does change the
  directory.\<close>

theorem failed_cd_changes_nothing_witness:
  "cmdLineArgs (shell_of ''cd /nowhere'') 1 = Some ''/nowhere''
   \<and> enter sample_kernel (cwd sample_kernel) ''/nowhere'' = None
   \<and> changeShellDirectory (shell_of ''cd /nowhere'') sample_kernel
     = (shell_of ''cd /nowhere'', sample_kernel, [])
   \<and> cmdLineArgs (shell_of ''cd'') 1 = None
   \<and> HOME (sample_kernel\<lparr>HOME := None\<rparr>) = None
   \<and> changeShellDirectory (shell_of ''cd'') (sample_kernel\<lparr>HOME := None\<rparr>)
     = (shell_of ''cd'', sample_kernel\<lparr>HOME := None\<rparr>, [])
   \<and> HOME (sample_kernel\<lparr>HOME := Some ''/gone''\<rparr>) = Some ''/gone''
   \<and> changeShellDirectory (shell_of ''cd'') (sample_kernel\<lparr>HOME := Some ''/gone''\<rparr>)
     = (shell_of ''cd'', sample_kernel\<lparr>HOME := Some ''/gone''\<rparr>, [])
   \<and> cwd (fst (snd (changeShellDirectory (shell_of ''cd'') sample_kernel))) = ''/root''"
proof -
  have a: "cmdLineArgs (shell_of ''cd /nowhere'') 1 = Some ''/nowhere''"
    by (simp add: shell_of_eval)
  have b: "enter sample_kernel (cwd sample_kernel) ''/nowhere'' = None"
    by (simp add: sample_kernel_def)
  have c: "cmdLineArgs (shell_of ''cd'') 1 = None"
    by (simp add: shell_of_eval)
  have d: "enter (sample_kernel\<lparr>HOME := Some ''/gone''\<rparr>)
      (cwd (sample_kernel\<lparr>HOME := Some ''/gone''\<rparr>)) ''/gone'' = None"
    by (simp add: sample_kernel_def)
  have e: "cwd (fst (snd (changeShellDirectory (shell_of ''cd'') sample_kernel))) = ''/root''"
    using c by (simp add: changeShellDirectory_def chdir_def sample_kernel_def)
  from a b c d e
    failed_cd_changes_nothing [where s = "shell_of ''cd /nowhere''" and k = sample_kernel
      and path = "''/nowhere''"]
    failed_cd_changes_nothing [where s = "shell_of ''cd''"
      and k = "sample_kernel\<lparr>HOME := None\<rparr>"]
    failed_cd_changes_nothing [where s = "shell_of ''cd''"
      and k = "sample_kernel\<lparr>HOME := Some ''/gone''\<rparr>" and path = "''/gone''"]
  show ?thesis
    by simp
qed


end
